theory Spec2Isabelle
  imports Complex_Main
begin

section \<open>Values, errors and the process state\<close>

text \<open>
  Values that cross the boundary of the program untyped (the webhook body, the columns of
  a result row, the fields copied from them) are JavaScript values. \<open>Undefined\<close> is what
  reading an absent property yields.
\<close>

datatype jsval =
    Undefined
  | Null
  | Bool bool
  | Num int
  | Str string
  | Arr "jsval list"
  | Obj "(string \<times> jsval) list"

text \<open>
  \<open>MysqlError\<close>: a rejection of the mysql2 driver (\<open>createConnection\<close> or \<open>execute\<close>).
  \<open>TypeError\<close>: reading a property of \<open>undefined\<close> or \<open>null\<close>.
  \<open>Error msg\<close>: \<open>throw new Error(msg)\<close>.
\<close>

datatype error = MysqlError | TypeError | Error string

text \<open>
  The state of the process that the database code reads and writes.
  \<open>CONNECTION_ATTEMPTS\<close> is the module-level \<open>let CONNECTION_ATTEMPTS = 1\<close>. The other
  fields record the effects: how many times \<open>mysql2.createConnection\<close> has been called, the
  handles of the connections it created (the handle of a connection is the index of the
  call that created it), the handles on which \<open>end()\<close> was called, and the delays in
  milliseconds passed to \<open>setTimeout\<close> and awaited.
\<close>

record world =
  CONNECTION_ATTEMPTS :: nat
  cxn_calls :: nat
  opened :: "nat list"
  ended :: "nat list"
  slept :: "nat list"

definition MAX_CXN_RETRIES :: nat where
  "MAX_CXN_RETRIES = 6"

definition init_world :: world where
  "init_world = \<lparr>CONNECTION_ATTEMPTS = 1, cxn_calls = 0, opened = [], ended = [], slept = []\<rparr>"

section \<open>Connection manager (src/mysql/mysqlClientProvider.ts)\<close>

text \<open>
  \<open>getConnection\<close>: one call of \<open>mysql2.createConnection\<close>. Whether the \<open>k\<close>-th call of
  the process succeeds is the environment's choice \<open>cc k\<close>.
\<close>

definition getConnection :: "(nat \<Rightarrow> bool) \<Rightarrow> world \<Rightarrow> (error + nat) \<times> world" where
  "getConnection cc w =
     (let k = cxn_calls w; w' = w\<lparr>cxn_calls := k + 1\<rparr>
      in if cc k then (Inr k, w'\<lparr>opened := opened w' @ [k]\<rparr>) else (Inl MysqlError, w'))"

text \<open>
  \<open>getRetryDelay\<close>:
  \<^verbatim>\<open>maxDelayMillis < minDelayMillis * 2 ** attempts ? maxDelayMillis : minDelayMillis * 2 ** attempts\<close>
\<close>

definition minDelayMillis :: nat where
  "minDelayMillis = 1000"

definition maxDelayMillis :: nat where
  "maxDelayMillis = 60000"

definition getRetryDelay :: "nat \<Rightarrow> nat" where
  "getRetryDelay attempts =
     (if maxDelayMillis < minDelayMillis * 2 ^ attempts then maxDelayMillis
      else minDelayMillis * 2 ^ attempts)"

text \<open>
  \<open>attemptToConnectMySql\<close>: the \<open>while (CONNECTION_ATTEMPTS <= MAX_CXN_RETRIES)\<close> loop. A
  successful \<open>getConnection\<close> returns \<open>true\<close> (the connection itself is dropped); a failed
  one sleeps \<open>getRetryDelay(CONNECTION_ATTEMPTS)\<close>, then increments the counter. Leaving
  the loop throws.
\<close>

function attemptToConnectMySql :: "(nat \<Rightarrow> bool) \<Rightarrow> world \<Rightarrow> (error + bool) \<times> world" where
  "attemptToConnectMySql cc w =
     (if CONNECTION_ATTEMPTS w \<le> MAX_CXN_RETRIES then
        (case getConnection cc w of
           (Inr c, w1) \<Rightarrow> (Inr True, w1)
         | (Inl e, w1) \<Rightarrow>
             attemptToConnectMySql cc
               (w1\<lparr>slept := slept w1 @ [getRetryDelay (CONNECTION_ATTEMPTS w1)],
                   CONNECTION_ATTEMPTS := CONNECTION_ATTEMPTS w1 + 1\<rparr>))
      else (Inl (Error ''Failed to connect to the database after multiple attempts.''), w))"
  by pat_completeness auto
termination
  by (relation "measure (\<lambda>(cc, w). Suc MAX_CXN_RETRIES - CONNECTION_ATTEMPTS w)")
     (auto simp: getConnection_def Let_def split: if_splits)

declare attemptToConnectMySql.simps [simp del]

text \<open>
  \<open>invocations cc n w\<close>: \<open>n\<close> successive calls of \<open>attemptToConnectMySql\<close> in one process,
  each starting in the state the previous one left.
\<close>

fun invocations :: "(nat \<Rightarrow> bool) \<Rightarrow> nat \<Rightarrow> world \<Rightarrow> world" where
  "invocations cc 0 w = w"
| "invocations cc (Suc n) w = invocations cc n (snd (attemptToConnectMySql cc w))"

text \<open>The calls of \<open>createConnection\<close> so far that did not yield a connection.\<close>

definition failed_attempts :: "world \<Rightarrow> nat" where
  "failed_attempts w = cxn_calls w - length (opened w)"

text \<open>
  Two behaviours of the database used as concrete inputs: \<open>fails_first n\<close> rejects the
  first \<open>n\<close> connection requests and accepts every later one; \<open>always_fails\<close> rejects all.
\<close>

definition fails_first :: "nat \<Rightarrow> nat \<Rightarrow> bool" where
  "fails_first n k = (n \<le> k)"

definition always_fails :: "nat \<Rightarrow> bool" where
  "always_fails k = False"

text \<open>
  The relation between the counter and the recorded effects that every call of
  \<open>attemptToConnectMySql\<close> maintains: the counter is one more than the number of failed
  connection requests, and every failed request was followed by one sleep.
\<close>

definition counter_inv :: "world \<Rightarrow> bool" where
  "counter_inv w \<longleftrightarrow>
     length (opened w) \<le> cxn_calls w \<and>
     CONNECTION_ATTEMPTS w = Suc (cxn_calls w - length (opened w)) \<and>
     length (slept w) = cxn_calls w - length (opened w)"

section \<open>Reading JavaScript values\<close>

text \<open>
  \<open>get_prop v k\<close> is the expression \<open>v.k\<close>: a \<open>TypeError\<close> on \<open>undefined\<close> and \<open>null\<close>,
  the stored value on an object that has the property, \<open>undefined\<close> otherwise. The
  association list of an object holds each key once. None of the property names read by
  this program is defined on the prototypes of objects, arrays, strings, numbers or
  booleans, so a value of those kinds yields \<open>undefined\<close> for them.
\<close>

fun get_prop :: "jsval \<Rightarrow> string \<Rightarrow> error + jsval" where
  "get_prop Undefined k = Inl TypeError"
| "get_prop Null k = Inl TypeError"
| "get_prop (Obj kvs) k = (case map_of kvs k of None \<Rightarrow> Inr Undefined | Some v \<Rightarrow> Inr v)"
| "get_prop v k = Inr Undefined"

text \<open>\<open>path v [k1, ..., kn]\<close> is \<open>v.k1. ... .kn\<close>, evaluated left to right.\<close>

fun path :: "jsval \<Rightarrow> string list \<Rightarrow> error + jsval" where
  "path v [] = Inr v"
| "path v (k # ks) = (case get_prop v k of Inl e \<Rightarrow> Inl e | Inr v' \<Rightarrow> path v' ks)"

text \<open>\<open>field row k\<close> is \<open>row.k\<close> for a value that is known to be an object.\<close>

definition field :: "jsval \<Rightarrow> string \<Rightarrow> jsval" where
  "field v k = (case get_prop v k of Inl e \<Rightarrow> Undefined | Inr x \<Rightarrow> x)"

text \<open>\<open>js_index xs i\<close> is \<open>xs[i]\<close> on an array: \<open>undefined\<close> out of range.\<close>

definition js_index :: "jsval list \<Rightarrow> nat \<Rightarrow> jsval" where
  "js_index xs i = (if i < length xs then xs ! i else Undefined)"

text \<open>Truthiness and the operator \<open>a || b\<close>.\<close>

fun truthy :: "jsval \<Rightarrow> bool" where
  "truthy Undefined = False"
| "truthy Null = False"
| "truthy (Bool b) = b"
| "truthy (Num n) = (n \<noteq> 0)"
| "truthy (Str s) = (s \<noteq> [])"
| "truthy (Arr xs) = True"
| "truthy (Obj kvs) = True"

definition js_or :: "jsval \<Rightarrow> jsval \<Rightarrow> jsval" where
  "js_or a b = (if truthy a then a else b)"

text \<open>\<open>process.env.X\<close>: a string when the variable is set, \<open>undefined\<close> otherwise.\<close>

definition env_val :: "string option \<Rightarrow> jsval" where
  "env_val x = (case x of None \<Rightarrow> Undefined | Some s \<Rightarrow> Str s)"

section \<open>Subscriber and publication resolvers (src/mysql/mysqlClientProvider.ts)\<close>

text \<open>
  The two prepared statements. What the program depends on is the list of column names
  of the result, which are the aliases of the \<open>SELECT\<close> clause:
  \<^verbatim>\<open>SELECT members.email as email, members.uuid as member_uuid, members.name as name ...\<close>
  \<^verbatim>\<open>SELECT name, newsletters.uuid as newsletter_id FROM newsletters ... LIMIT 1\<close>
\<close>

datatype query = EMAILS_QUERY | NEWSLETTER_QUERY

fun columns :: "query \<Rightarrow> string list" where
  "columns EMAILS_QUERY = [''email'', ''member_uuid'', ''name'']"
| "columns NEWSLETTER_QUERY = [''name'', ''newsletter_id'']"

text \<open>
  The relational store answers a query and its bound parameter with an error or with the
  tuples selected, the values of each tuple in the order of the \<open>SELECT\<close> clause. The
  driver's \<open>execute\<close> turns each tuple into a row object keyed by the column names.
\<close>

type_synonym store = "query \<Rightarrow> jsval \<Rightarrow> error + jsval list list"

definition execute :: "store \<Rightarrow> query \<Rightarrow> jsval \<Rightarrow> error + jsval list" where
  "execute db q p =
     (case db q p of
        Inl e \<Rightarrow> Inl e
      | Inr tuples \<Rightarrow> Inr (map (\<lambda>t. Obj (zip (columns q) t)) tuples))"

record UserData =
  email :: jsval
  name :: jsval
  uuid :: jsval

text \<open>
  \<open>getEmailsByPostId\<close>: open a connection, run the query, map every row to a
  \<open>UserData\<close>, call \<open>connection.end()\<close>, return the users. The \<open>catch\<close> logs and rethrows.
\<close>

definition getEmailsByPostId ::
  "(nat \<Rightarrow> bool) \<Rightarrow> store \<Rightarrow> jsval \<Rightarrow> world \<Rightarrow> (error + UserData list) \<times> world" where
  "getEmailsByPostId cc db postId w =
     (case getConnection cc w of
        (Inl e, w1) \<Rightarrow> (Inl e, w1)
      | (Inr connection, w1) \<Rightarrow>
          (case execute db EMAILS_QUERY postId of
             Inl e \<Rightarrow> (Inl e, w1)
           | Inr rows \<Rightarrow>
               (Inr (map (\<lambda>row. \<lparr>email = field row ''email'',
                                 name = field row ''name'',
                                 uuid = field row ''member_uuid''\<rparr>) rows),
                w1\<lparr>ended := ended w1 @ [connection]\<rparr>)))"

text \<open>
  \<open>getNewsletterNameByPostId\<close>: open a connection, run the query, read \<open>rows[0].name\<close>
  and \<open>rows[0].newsletter_uuid\<close>, return the object \<open>{name, newsletter_uuid}\<close>. There is
  no call of \<open>connection.end()\<close>. The \<open>catch\<close> logs and rethrows.
\<close>

definition getNewsletterNameByPostId ::
  "(nat \<Rightarrow> bool) \<Rightarrow> store \<Rightarrow> jsval \<Rightarrow> world \<Rightarrow> (error + jsval) \<times> world" where
  "getNewsletterNameByPostId cc db postId w =
     (case getConnection cc w of
        (Inl e, w1) \<Rightarrow> (Inl e, w1)
      | (Inr connection, w1) \<Rightarrow>
          (case execute db NEWSLETTER_QUERY postId of
             Inl e \<Rightarrow> (Inl e, w1)
           | Inr rows \<Rightarrow>
               (case get_prop (js_index rows 0) ''name'' of
                  Inl e \<Rightarrow> (Inl e, w1)
                | Inr name' \<Rightarrow>
                    (case get_prop (js_index rows 0) ''newsletter_uuid'' of
                       Inl e \<Rightarrow> (Inl e, w1)
                     | Inr newsletter_uuid \<Rightarrow>
                         (Inr (Obj [(''name'', name'),
                                    (''newsletter_uuid'', newsletter_uuid)]), w1)))))"

section \<open>Batch dispatcher (PostmarkBatchEmailSender)\<close>

text \<open>
  \<open>NewsletterData\<close> is the object the webhook handler builds. The nested \<open>author\<close> object
  has the properties \<open>name\<close> and \<open>image\<close>, here \<open>author_name\<close> and \<open>author_image\<close>; the
  property \<open>name\<close> of the newsletter itself is \<open>nl_name\<close>.
\<close>

record AuthorData =
  author_name :: jsval
  author_image :: jsval

record NewsletterData =
  nl_name :: jsval
  title :: jsval
  excerpt :: jsval
  html :: jsval
  url :: jsval
  feature_image :: jsval
  author :: AuthorData
  postSlug :: jsval

text \<open>The environment variables the dispatcher reads.\<close>

record Config =
  MAIL_FROM :: "string option"
  MAIL_TEMPLATE_ID :: "string option"
  GHOST_URL :: "string option"

text \<open>One entry of the provider's answer to a batch (\<open>BatchResponse\<close>).\<close>

record BatchResponse =
  ErrorCode :: int
  Message :: string
  MessageID :: string
  SubmittedAt :: string
  To :: string

text \<open>
  One message of a batch: the object \<open>{From, To, TemplateId, TemplateModel}\<close>. The
  template model is kept as the list of its properties, in the order of the literal.
\<close>

record EmailMessage =
  msg_From :: jsval
  msg_To :: jsval
  msg_TemplateId :: jsval
  msg_TemplateModel :: "(string \<times> jsval) list"

definition BATCH_SIZE :: nat where
  "BATCH_SIZE = 500"

text \<open>
  The template model of one recipient. \<open>newsletter.header_image\<close>, \<open>newsletter.created_at\<close>
  and \<open>newsletter.uuid\<close> read properties that a \<open>NewsletterData\<close> does not have.
\<close>

definition template_model :: "Config \<Rightarrow> NewsletterData \<Rightarrow> UserData \<Rightarrow> (string \<times> jsval) list" where
  "template_model cfg newsletter user =
     [(''username'', name user),
      (''emailFrom'', js_or (env_val (MAIL_FROM cfg)) (Str '''')),
      (''website_url'', js_or (env_val (GHOST_URL cfg)) (Str ''https://example.com'')),
      (''header_image'', Undefined),
      (''user_email'', email user),
      (''user_uuid'', uuid user),
      (''created_at'', Undefined),
      (''newsletter_uuid'', Undefined),
      (''newsletterName'', nl_name newsletter),
      (''title'', title newsletter),
      (''excerpt'', excerpt newsletter),
      (''html'', html newsletter),
      (''feature_image'', feature_image newsletter),
      (''authorName'', author_name (author newsletter)),
      (''authorImage'', author_image (author newsletter)),
      (''postUrl'', url newsletter)]"

definition make_message :: "Config \<Rightarrow> NewsletterData \<Rightarrow> UserData \<Rightarrow> EmailMessage" where
  "make_message cfg newsletter user =
     \<lparr>msg_From = env_val (MAIL_FROM cfg),
      msg_To = email user,
      msg_TemplateId = env_val (MAIL_TEMPLATE_ID cfg),
      msg_TemplateModel = template_model cfg newsletter user\<rparr>"

text \<open>\<open>xs.slice(a, b)\<close> for indices that are not negative.\<close>

definition slice :: "'a list \<Rightarrow> nat \<Rightarrow> nat \<Rightarrow> 'a list" where
  "slice xs a b = take (b - a) (drop a xs)"

text \<open>\<open>Math.ceil(userData.length / BATCH_SIZE)\<close>.\<close>

definition batches :: "nat \<Rightarrow> nat" where
  "batches n = nat \<lceil>real n / real BATCH_SIZE\<rceil>"

text \<open>\<open>const batch = userData.slice(i * BATCH_SIZE, (i + 1) * BATCH_SIZE)\<close>.\<close>

definition batch :: "UserData list \<Rightarrow> nat \<Rightarrow> UserData list" where
  "batch userData i = slice userData (i * BATCH_SIZE) ((i + 1) * BATCH_SIZE)"

text \<open>
  The state of one call of \<open>send\<close>. \<open>failedEmails\<close> is the array the call creates and
  returns; \<open>submitted\<close> lists the arguments of the calls of \<open>sendEmailBatchWithTemplates\<close>
  in order; \<open>pending\<close> lists the batches whose promise has a \<open>then\<close> callback registered
  that has not run yet. A \<open>then\<close> callback never runs inside the call that registers it:
  it is queued and runs after the running code has returned to the event loop.
\<close>

record sender_state =
  failedEmails :: "string list"
  submitted :: "EmailMessage list list"
  pending :: "EmailMessage list list"

text \<open>The \<open>for (let i = 0; i < batches; i++)\<close> loop, from iteration \<open>i\<close> on.\<close>

function send_loop ::
  "Config \<Rightarrow> NewsletterData \<Rightarrow> UserData list \<Rightarrow> nat \<Rightarrow> nat \<Rightarrow> sender_state \<Rightarrow> sender_state" where
  "send_loop cfg newsletter userData n i st =
     (if i < n then
        (let emailBatch = map (make_message cfg newsletter) (batch userData i)
         in send_loop cfg newsletter userData n (i + 1)
              (st\<lparr>submitted := submitted st @ [emailBatch],
                  pending := pending st @ [emailBatch]\<rparr>))
      else st)"
  by pat_completeness auto
termination
  by (relation "measure (\<lambda>(cfg, newsletter, userData, n, i, st). n - i)") auto

declare send_loop.simps [simp del]

text \<open>
  \<open>send\<close> up to its \<open>return failedEmails\<close>. (The constant \<open>postUrl\<close> that the source
  computes first is never used.) The value returned is the array; what the
  caller reads from it before giving control back to the event loop is \<open>failedEmails\<close> of
  the state returned here.
\<close>

definition send :: "Config \<Rightarrow> UserData list \<Rightarrow> NewsletterData \<Rightarrow> sender_state" where
  "send cfg userData newsletter =
     send_loop cfg newsletter userData (batches (length userData)) 0
       \<lparr>failedEmails = [], submitted = [], pending = []\<rparr>"

text \<open>
  The \<open>then\<close> callback of one batch:
  \<^verbatim>\<open>response.forEach(result => { if (result.Message !== "OK" || result.ErrorCode !== 0) failedEmails.push(result.To) })\<close>
\<close>

fun then_callback :: "BatchResponse list \<Rightarrow> sender_state \<Rightarrow> sender_state" where
  "then_callback [] st = st"
| "then_callback (result # response) st =
     then_callback response
       (if Message result \<noteq> ''OK'' \<or> ErrorCode result \<noteq> 0
        then st\<lparr>failedEmails := failedEmails st @ [To result]\<rparr> else st)"

text \<open>
  The provider settles the promise of a batch with a response (\<open>Some\<close>) or rejects it
  (\<open>None\<close>, for which no callback is registered). \<open>settle\<close> runs the queued callbacks,
  here in the order of submission.
\<close>

fun run_callbacks ::
  "(EmailMessage list \<Rightarrow> BatchResponse list option) \<Rightarrow> EmailMessage list list \<Rightarrow>
     sender_state \<Rightarrow> sender_state" where
  "run_callbacks provider [] st = st"
| "run_callbacks provider (b # bs) st =
     run_callbacks provider bs
       (case provider b of None \<Rightarrow> st | Some response \<Rightarrow> then_callback response st)"

definition settle :: "(EmailMessage list \<Rightarrow> BatchResponse list option) \<Rightarrow> sender_state \<Rightarrow> sender_state" where
  "settle provider st = (run_callbacks provider (pending st) st)\<lparr>pending := []\<rparr>"

section \<open>Webhook handler (src/index.ts)\<close>

definition bind_err :: "error + 'a \<Rightarrow> ('a \<Rightarrow> error + 'b) \<Rightarrow> error + 'b" where
  "bind_err m f = (case m of Inl e \<Rightarrow> Inl e | Inr x \<Rightarrow> f x)"

text \<open>
  The object literal \<open>newsletterData\<close>. Its properties are evaluated in the order written;
  \<open>name\<close> receives the whole value returned by \<open>getNewsletterNameByPostId\<close>.
\<close>

definition build_newsletterData :: "jsval \<Rightarrow> jsval \<Rightarrow> error + NewsletterData" where
  "build_newsletterData postData newsletterName =
     bind_err (path postData [''post'', ''current'', ''title'']) (\<lambda>v_title.
     bind_err (path postData [''post'', ''current'', ''excerpt'']) (\<lambda>v_excerpt.
     bind_err (path postData [''post'', ''current'', ''html'']) (\<lambda>v_html.
     bind_err (path postData [''post'', ''current'', ''url'']) (\<lambda>v_url.
     bind_err (path postData [''post'', ''current'', ''feature_image'']) (\<lambda>v_feature_image.
     bind_err (path postData [''post'', ''current'', ''primary_author'', ''name'']) (\<lambda>v_author_name.
     bind_err (path postData [''post'', ''current'', ''primary_author'', ''profile_image'']) (\<lambda>v_author_image.
     bind_err (path postData [''post'', ''current'', ''slug'']) (\<lambda>v_slug.
       Inr \<lparr>nl_name = newsletterName,
            title = v_title,
            excerpt = v_excerpt,
            html = v_html,
            url = v_url,
            feature_image = v_feature_image,
            author = \<lparr>author_name = v_author_name, author_image = v_author_image\<rparr>,
            postSlug = v_slug\<rparr>))))))))"

text \<open>The text of an array of strings inside a template literal: its elements joined by commas.\<close>

fun join_comma :: "string list \<Rightarrow> string" where
  "join_comma [] = []"
| "join_comma [x] = x"
| "join_comma (x # y # ys) = x @ '','' @ join_comma (y # ys)"

text \<open>
  The dispatcher as the handler sees it: \<open>batchEmailSender.send(usersToEmail, newsletterData)\<close>
  yields the list the handler reads in the statement that follows the call.
\<close>

type_synonym sender = "UserData list \<Rightarrow> NewsletterData \<Rightarrow> string list"

definition postmark_sender :: "Config \<Rightarrow> sender" where
  "postmark_sender cfg userData newsletter = failedEmails (send cfg userData newsletter)"

text \<open>
  The body of the \<open>try\<close> block. Besides its result and the state it returns the arguments
  of the call of \<open>send\<close>, when that call was made.
\<close>

definition hooks_try ::
  "sender \<Rightarrow> (nat \<Rightarrow> bool) \<Rightarrow> store \<Rightarrow> jsval \<Rightarrow> jsval \<Rightarrow> world \<Rightarrow>
     (error + unit) \<times> (UserData list \<times> NewsletterData) option \<times> world" where
  "hooks_try sender cc db postData postId w =
     (case getEmailsByPostId cc db postId w of
        (Inl e, w1) \<Rightarrow> (Inl e, None, w1)
      | (Inr usersToEmail, w1) \<Rightarrow>
          (case getNewsletterNameByPostId cc db postId w1 of
             (Inl e, w2) \<Rightarrow> (Inl e, None, w2)
           | (Inr newsletterName, w2) \<Rightarrow>
               (case build_newsletterData postData newsletterName of
                  Inl e \<Rightarrow> (Inl e, None, w2)
                | Inr newsletterData \<Rightarrow>
                    (let failureEmails = sender usersToEmail newsletterData
                     in if length failureEmails > 0
                        then (Inl (Error (''Failed emails list: '' @ join_comma failureEmails)),
                              Some (usersToEmail, newsletterData), w2)
                        else (Inr (), Some (usersToEmail, newsletterData), w2)))))"

text \<open>
  The handler of \<open>POST /hooks\<close>. \<open>postData.post.current.id\<close> is read before the \<open>try\<close>: an
  error there leaves the handler without any status sent. Inside the \<open>try\<close>, success
  sends 200 and every error is caught and answered with 500.
\<close>

record outcome =
  status :: "nat option"
  dispatch :: "(UserData list \<times> NewsletterData) option"
  world_after :: world

definition hooks_handler ::
  "sender \<Rightarrow> (nat \<Rightarrow> bool) \<Rightarrow> store \<Rightarrow> jsval \<Rightarrow> world \<Rightarrow> outcome" where
  "hooks_handler sender cc db postData w =
     (case path postData [''post'', ''current'', ''id''] of
        Inl e \<Rightarrow> \<lparr>status = None, dispatch = None, world_after = w\<rparr>
      | Inr postId \<Rightarrow>
          (case hooks_try sender cc db postData postId w of
             (Inr u, d, w') \<Rightarrow> \<lparr>status = Some 200, dispatch = d, world_after = w'\<rparr>
           | (Inl e, d, w') \<Rightarrow> \<lparr>status = Some 500, dispatch = d, world_after = w'\<rparr>))"

section \<open>Concrete inputs\<close>

text \<open>
  A webhook body for post 42, as the content platform sends it for a post without a
  feature image (\<open>feature_image\<close> is \<open>null\<close>) and without an excerpt (no such property).
\<close>

definition example_event :: jsval where
  "example_event =
     Obj [(''post'', Obj [(''current'', Obj
       [(''id'', Str ''42''),
        (''slug'', Str ''hello''),
        (''url'', Str ''https://blog.example.com/hello/''),
        (''title'', Str ''Hello''),
        (''html'', Str ''<p>Hello</p>''),
        (''feature_image'', Null),
        (''primary_author'', Obj
          [(''name'', Str ''Ann''),
           (''profile_image'', Str ''https://blog.example.com/ann.png''),
           (''url'', Str ''https://blog.example.com/author/ann/'')])])])]"

text \<open>
  Stores: one with a single subscriber and a publication for every post, one that selects
  no tuple for any query, one whose \<open>execute\<close> is rejected.
\<close>

definition example_store :: store where
  "example_store q p =
     (case q of
        EMAILS_QUERY \<Rightarrow> Inr [[Str ''bad@example.com'', Str ''m-1'', Str ''Bad'']]
      | NEWSLETTER_QUERY \<Rightarrow> Inr [[Str ''Weekly'', Str ''n-1'']])"

definition empty_store :: store where
  "empty_store q p = Inr []"

definition failing_store :: store where
  "failing_store q p = Inl MysqlError"

definition example_user :: UserData where
  "example_user = \<lparr>email = Str ''bad@example.com'', name = Str ''Bad'', uuid = Str ''m-1''\<rparr>"

definition example_config :: Config where
  "example_config =
     \<lparr>MAIL_FROM = Some ''news@example.com'', MAIL_TEMPLATE_ID = Some ''1234'',
      GHOST_URL = Some ''https://blog.example.com''\<rparr>"

definition example_newsletter :: NewsletterData where
  "example_newsletter =
     \<lparr>nl_name = Obj [(''name'', Str ''Weekly''), (''newsletter_uuid'', Undefined)],
      title = Str ''Hello'',
      excerpt = Undefined,
      html = Str ''<p>Hello</p>'',
      url = Str ''https://blog.example.com/hello/'',
      feature_image = Null,
      author = \<lparr>author_name = Str ''Ann'',
                 author_image = Str ''https://blog.example.com/ann.png''\<rparr>,
      postSlug = Str ''hello''\<rparr>"

text \<open>A provider that answers every message of a batch with error 406.\<close>

definition address :: "jsval \<Rightarrow> string" where
  "address v = (case v of Str s \<Rightarrow> s | _ \<Rightarrow> [])"

definition rejecting_provider :: "EmailMessage list \<Rightarrow> BatchResponse list option" where
  "rejecting_provider b =
     Some (map (\<lambda>m. \<lparr>ErrorCode = 406, Message = ''Inactive recipient'', MessageID = [],
                      SubmittedAt = [], To = address (msg_To m)\<rparr>) b)"

text \<open>Two dispatchers: one reports no failure, one reports every recipient as failed.\<close>

definition sender_ok :: sender where
  "sender_ok userData newsletter = []"

definition sender_all_failed :: sender where
  "sender_all_failed userData newsletter = map (\<lambda>u. address (email u)) userData"

section \<open>Connection manager: properties\<close>

lemma attempt_success:
  "CONNECTION_ATTEMPTS w \<le> MAX_CXN_RETRIES \<Longrightarrow> cc (cxn_calls w) \<Longrightarrow>
   attemptToConnectMySql cc w =
     (Inr True, w\<lparr>cxn_calls := cxn_calls w + 1, opened := opened w @ [cxn_calls w]\<rparr>)"
  by (subst attemptToConnectMySql.simps) (simp add: getConnection_def Let_def)

lemma attempt_failure:
  "CONNECTION_ATTEMPTS w \<le> MAX_CXN_RETRIES \<Longrightarrow> \<not> cc (cxn_calls w) \<Longrightarrow>
   attemptToConnectMySql cc w =
     attemptToConnectMySql cc
       (w\<lparr>cxn_calls := cxn_calls w + 1,
          slept := slept w @ [getRetryDelay (CONNECTION_ATTEMPTS w)],
          CONNECTION_ATTEMPTS := CONNECTION_ATTEMPTS w + 1\<rparr>)"
  by (subst attemptToConnectMySql.simps) (simp add: getConnection_def Let_def)

lemma attempt_exhausted:
  "MAX_CXN_RETRIES < CONNECTION_ATTEMPTS w \<Longrightarrow>
   attemptToConnectMySql cc w =
     (Inl (Error ''Failed to connect to the database after multiple attempts.''), w)"
  by (subst attemptToConnectMySql.simps) simp

lemma getRetryDelay_is_min:
  "getRetryDelay a = min maxDelayMillis (minDelayMillis * 2 ^ a)"
  by (simp add: getRetryDelay_def min_def)

lemma getRetryDelay_values:
  "getRetryDelay (Suc 0) = 2000"
  "getRetryDelay (Suc (Suc 0)) = 4000"
  "getRetryDelay (Suc (Suc (Suc 0))) = 8000"
  "getRetryDelay (Suc (Suc (Suc (Suc 0)))) = 16000"
  "getRetryDelay (Suc (Suc (Suc (Suc (Suc 0))))) = 32000"
  "getRetryDelay (Suc (Suc (Suc (Suc (Suc (Suc 0)))))) = 60000"
  by (simp_all add: getRetryDelay_def minDelayMillis_def maxDelayMillis_def)

lemma three_failures_then_success:
  assumes "\<not> cc 0" "\<not> cc 1" "\<not> cc 2" "cc 3"
  shows "attemptToConnectMySql cc init_world =
    (Inr True, \<lparr>CONNECTION_ATTEMPTS = 4, cxn_calls = 4, opened = [3], ended = [],
                slept = [2000, 4000, 8000]\<rparr>)"
proof -
  have a: "\<not> cc (Suc 0)" "\<not> cc (Suc (Suc 0))" "cc (Suc (Suc (Suc 0)))"
    using assms by (simp_all add: numeral_2_eq_2 numeral_3_eq_3)
  show ?thesis
    using assms(1) a
    by (simp add: init_world_def attempt_failure attempt_success MAX_CXN_RETRIES_def
      getRetryDelay_values)
qed

lemma six_failures:
  assumes "\<forall>k<6. \<not> cc k"
  shows "attemptToConnectMySql cc init_world =
    (Inl (Error ''Failed to connect to the database after multiple attempts.''),
      \<lparr>CONNECTION_ATTEMPTS = 7, cxn_calls = 6, opened = [], ended = [],
         slept = [2000, 4000, 8000, 16000, 32000, 60000]\<rparr>)"
proof -
  have a: "\<not> cc 0" "\<not> cc (Suc 0)" "\<not> cc (Suc (Suc 0))" "\<not> cc (Suc (Suc (Suc 0)))"
    "\<not> cc (Suc (Suc (Suc (Suc 0))))" "\<not> cc (Suc (Suc (Suc (Suc (Suc 0)))))"
    using assms by simp_all
  show ?thesis
    using a
    by (simp add: init_world_def attempt_failure attempt_exhausted MAX_CXN_RETRIES_def
      getRetryDelay_values)
qed

lemma attempt_preserves_inv:
  "counter_inv w \<Longrightarrow> counter_inv (snd (attemptToConnectMySql cc w))"
proof (induction cc w rule: attemptToConnectMySql.induct)
  case (1 cc w)
  show ?case
  proof (cases "CONNECTION_ATTEMPTS w \<le> MAX_CXN_RETRIES")
    case False
    then show ?thesis using 1(2) by (simp add: attempt_exhausted)
  next
    case le: True
    show ?thesis
    proof (cases "cc (cxn_calls w)")
      case True
      then show ?thesis using le 1(2) by (simp add: attempt_success counter_inv_def)
    next
      case False
      have g: "getConnection cc w = (Inl MysqlError, w\<lparr>cxn_calls := cxn_calls w + 1\<rparr>)"
        using False by (simp add: getConnection_def Let_def)
      have "counter_inv (w\<lparr>cxn_calls := cxn_calls w + 1,
          slept := slept w @ [getRetryDelay (CONNECTION_ATTEMPTS w)],
          CONNECTION_ATTEMPTS := CONNECTION_ATTEMPTS w + 1\<rparr>)"
        using 1(2) by (auto simp: counter_inv_def)
      then show ?thesis
        using 1(1)[OF le g[symmetric] refl] le False
        by (simp add: attempt_failure)
    qed
  qed
qed

lemma invocations_inv: "counter_inv w \<Longrightarrow> counter_inv (invocations cc n w)"
  by (induction n arbitrary: w) (simp_all add: attempt_preserves_inv)

lemma init_inv: "counter_inv init_world"
  by (simp add: counter_inv_def init_world_def)

lemma attempt_calls_bound:
  "cxn_calls (snd (attemptToConnectMySql cc w)) - cxn_calls w
     \<le> Suc MAX_CXN_RETRIES - CONNECTION_ATTEMPTS w \<and>
   cxn_calls w \<le> cxn_calls (snd (attemptToConnectMySql cc w))"
proof (induction cc w rule: attemptToConnectMySql.induct)
  case (1 cc w)
  show ?case
  proof (cases "CONNECTION_ATTEMPTS w \<le> MAX_CXN_RETRIES")
    case False
    then show ?thesis by (simp add: attempt_exhausted)
  next
    case le: True
    show ?thesis
    proof (cases "cc (cxn_calls w)")
      case True
      then show ?thesis using le by (simp add: attempt_success)
    next
      case False
      have g: "getConnection cc w = (Inl MysqlError, w\<lparr>cxn_calls := cxn_calls w + 1\<rparr>)"
        using False by (simp add: getConnection_def Let_def)
      show ?thesis
        using 1(1)[OF le g[symmetric] refl] le False
        by (simp add: attempt_failure) linarith
    qed
  qed
qed

lemma attempt_counter_mono:
  "CONNECTION_ATTEMPTS w \<le> CONNECTION_ATTEMPTS (snd (attemptToConnectMySql cc w))"
proof (induction cc w rule: attemptToConnectMySql.induct)
  case (1 cc w)
  show ?case
  proof (cases "CONNECTION_ATTEMPTS w \<le> MAX_CXN_RETRIES")
    case False
    then show ?thesis by (simp add: attempt_exhausted)
  next
    case le: True
    show ?thesis
    proof (cases "cc (cxn_calls w)")
      case True
      then show ?thesis using le by (simp add: attempt_success)
    next
      case False
      have g: "getConnection cc w = (Inl MysqlError, w\<lparr>cxn_calls := cxn_calls w + 1\<rparr>)"
        using False by (simp add: getConnection_def Let_def)
      show ?thesis
        using 1(1)[OF le g[symmetric] refl] le False
        by (simp add: attempt_failure)
    qed
  qed
qed

lemma always_fails_world:
  "invocations always_fails 1 init_world =
     \<lparr>CONNECTION_ATTEMPTS = 7, cxn_calls = 6, opened = [], ended = [],
      slept = [2000, 4000, 8000, 16000, 32000, 60000]\<rparr>"
  by (simp add: six_failures always_fails_def)

text \<open>
  C3, as the claim states it, fails: in a fresh process whose database rejects the
  first three connection requests and accepts the fourth, \<open>attemptToConnectMySql\<close> returns
  \<open>true\<close> after four requests, but the delays slept are 2 s, 4 s and 8 s, not 1 s, 2 s and
  4 s.
\<close>

theorem C3_delays_counterexample:
  "\<not> fails_first 3 0 \<and> \<not> fails_first 3 1 \<and> \<not> fails_first 3 2 \<and> fails_first 3 3 \<and>
   fst (attemptToConnectMySql (fails_first 3) init_world) = Inr True \<and>
   slept (snd (attemptToConnectMySql (fails_first 3) init_world)) \<noteq> [1000, 2000, 4000]"
  by (simp add: three_failures_then_success fails_first_def)

text \<open>
  C3, amended: in a fresh process, for a connection that fails the first 3 attempts and
  succeeds on the 4th, \<open>attemptToConnectMySql\<close> returns \<open>true\<close> on the 4th attempt, and the
  delays slept between the attempts are 2 s, 4 s and 8 s: the delay after the \<open>a\<close>-th
  attempt (counted from 1) is \<open>getRetryDelay a\<close>, which is the minimum of \<open>maxDelay\<close> and
  \<open>minDelay * 2 ^ a\<close>, with \<open>minDelay\<close> 1000 ms and \<open>maxDelay\<close> 60000 ms.
\<close>

theorem C3_three_failures_then_success:
  assumes "\<not> cc 0" and "\<not> cc 1" and "\<not> cc 2" and "cc 3"
  shows "fst (attemptToConnectMySql cc init_world) = Inr True \<and>
         cxn_calls (snd (attemptToConnectMySql cc init_world)) = 4 \<and>
         slept (snd (attemptToConnectMySql cc init_world)) = [2000, 4000, 8000] \<and>
         slept (snd (attemptToConnectMySql cc init_world)) = map getRetryDelay [1, 2, 3] \<and>
         (\<forall>a. getRetryDelay a = min maxDelayMillis (minDelayMillis * 2 ^ a)) \<and>
         minDelayMillis = 1000 \<and> maxDelayMillis = 60000"
proof -
  have d: "map getRetryDelay [1, 2, 3] = [2000, 4000, 8000]"
    by (simp add: getRetryDelay_def minDelayMillis_def maxDelayMillis_def)
  show ?thesis
    using three_failures_then_success [OF assms] getRetryDelay_is_min d
    by (simp add: minDelayMillis_def maxDelayMillis_def)
qed

theorem C3_witness:
  "\<not> fails_first 3 0 \<and> \<not> fails_first 3 1 \<and> \<not> fails_first 3 2 \<and> fails_first 3 3 \<and>
   fst (attemptToConnectMySql (fails_first 3) init_world) = Inr True \<and>
   cxn_calls (snd (attemptToConnectMySql (fails_first 3) init_world)) = 4 \<and>
   slept (snd (attemptToConnectMySql (fails_first 3) init_world)) = [2000, 4000, 8000]"
proof -
  have h: "\<not> fails_first 3 0" "\<not> fails_first 3 1" "\<not> fails_first 3 2" "fails_first 3 3"
    by (simp_all add: fails_first_def)
  show ?thesis
    using h C3_three_failures_then_success [OF h] by simp
qed

text \<open>
  C4, as the claim states it, fails: in a fresh process whose database rejects every
  connection request, the delays slept add up to 122 seconds, not to 63.
\<close>

theorem C4_total_sleep_counterexample:
  "sum_list (slept (snd (attemptToConnectMySql always_fails init_world))) \<noteq> 63000 \<and>
   sum_list (slept (snd (attemptToConnectMySql always_fails init_world))) = 122000"
  by (simp add: six_failures always_fails_def)

text \<open>
  C4, amended: in a fresh process, for a connection that fails on every attempt,
  \<open>attemptToConnectMySql\<close> makes exactly 6 attempts and then fails with the terminal error
  "Failed to connect to the database after multiple attempts."; it sleeps after each
  of the 6 failed attempts, for 2, 4, 8, 16, 32 and 60 seconds (\<open>getRetryDelay\<close> of the
  attempt number 1 to 6, the last one clamped at the 60 s ceiling), 122 seconds in total.
\<close>

theorem C4_retry_exhaustion:
  assumes "\<forall>k. \<not> cc k"
  shows "fst (attemptToConnectMySql cc init_world) =
           Inl (Error ''Failed to connect to the database after multiple attempts.'') \<and>
         cxn_calls (snd (attemptToConnectMySql cc init_world)) = 6 \<and>
         opened (snd (attemptToConnectMySql cc init_world)) = [] \<and>
         slept (snd (attemptToConnectMySql cc init_world)) =
           [2000, 4000, 8000, 16000, 32000, 60000] \<and>
         slept (snd (attemptToConnectMySql cc init_world)) = map getRetryDelay [1, 2, 3, 4, 5, 6] \<and>
         sum_list (slept (snd (attemptToConnectMySql cc init_world))) = 122000"
proof -
  have d: "map getRetryDelay [1, 2, 3, 4, 5, 6] = [2000, 4000, 8000, 16000, 32000, 60000]"
    by (simp add: getRetryDelay_def minDelayMillis_def maxDelayMillis_def)
  have "\<forall>k<6. \<not> cc k"
    using assms by simp
  from six_failures [OF this] d show ?thesis
    by simp
qed

theorem C4_witness:
  "(\<forall>k. \<not> always_fails k) \<and>
   fst (attemptToConnectMySql always_fails init_world) =
     Inl (Error ''Failed to connect to the database after multiple attempts.'') \<and>
   cxn_calls (snd (attemptToConnectMySql always_fails init_world)) = 6 \<and>
   sum_list (slept (snd (attemptToConnectMySql always_fails init_world))) = 122000"
proof -
  have h: "\<forall>k. \<not> always_fails k"
    by (simp add: always_fails_def)
  show ?thesis
    using C4_retry_exhaustion [OF h] h by blast
qed

text \<open>
  C9: the attempt counter is state of the process, 1 at the start and never reset. After
  any number \<open>n\<close> of earlier calls of \<open>attemptToConnectMySql\<close> (against any database
  behaviour \<open>cc\<close>), with \<open>k\<close> failed attempts so far, the counter is \<open>1 + k\<close>; a further call
  (against any behaviour \<open>cc'\<close>) does not lower the counter and makes at most \<open>6 - k\<close>
  connection attempts; and once the counter exceeds 6 the call fails at once, with no
  attempt and no change of state.
\<close>

theorem C9_shared_retry_budget:
  fixes cc cc' :: "nat \<Rightarrow> bool" and n :: nat
  defines "w \<equiv> invocations cc n init_world"
  defines "k \<equiv> failed_attempts w"
  shows "CONNECTION_ATTEMPTS init_world = 1 \<and>
         CONNECTION_ATTEMPTS w = 1 + k \<and>
         CONNECTION_ATTEMPTS w \<le> CONNECTION_ATTEMPTS (snd (attemptToConnectMySql cc' w)) \<and>
         cxn_calls (snd (attemptToConnectMySql cc' w)) - cxn_calls w \<le> 6 - k \<and>
         (MAX_CXN_RETRIES < CONNECTION_ATTEMPTS w \<longrightarrow>
            attemptToConnectMySql cc' w =
              (Inl (Error ''Failed to connect to the database after multiple attempts.''), w))"
proof -
  have inv: "counter_inv w"
    unfolding w_def by (rule invocations_inv [OF init_inv])
  have c: "CONNECTION_ATTEMPTS w = 1 + k"
    using inv by (simp add: counter_inv_def k_def failed_attempts_def)
  have b: "cxn_calls (snd (attemptToConnectMySql cc' w)) - cxn_calls w \<le> 6 - k"
    using attempt_calls_bound [of cc' w] c by (simp add: MAX_CXN_RETRIES_def)
  show ?thesis
    using c b attempt_counter_mono [of w cc'] attempt_exhausted [of w cc']
    by (simp add: init_world_def)
qed

theorem C9_witness:
  "MAX_CXN_RETRIES < CONNECTION_ATTEMPTS (invocations always_fails 1 init_world) \<and>
   failed_attempts (invocations always_fails 1 init_world) = 6 \<and>
   cxn_calls (snd (attemptToConnectMySql (fails_first 0) (invocations always_fails 1 init_world))) =
     cxn_calls (invocations always_fails 1 init_world) \<and>
   attemptToConnectMySql (fails_first 0) (invocations always_fails 1 init_world) =
     (Inl (Error ''Failed to connect to the database after multiple attempts.''),
      invocations always_fails 1 init_world)"
  using C9_shared_retry_budget [of always_fails 1 "fails_first 0"]
  unfolding always_fails_world
  by (simp add: MAX_CXN_RETRIES_def failed_attempts_def)

section \<open>Batch dispatcher: properties\<close>

text \<open>
  \<open>Math.ceil\<close> of the quotient, taken over the reals, is the integer \<open>(n + 499) div 500\<close>.
  (The quotient of the source is a double; for every array length it lies on the same
  side of each integer as the exact quotient, so the ceiling is the same.)
\<close>

lemma batches_eq: "batches n = (n + 499) div 500"
proof -
  have "\<lceil>real n / real BATCH_SIZE\<rceil> = \<lceil>of_int (int n) / of_int 500 :: real\<rceil>"
    by (simp add: BATCH_SIZE_def)
  also have "\<dots> = - (- int n div 500)"
    by (rule ceiling_divide_eq_div)
  finally show ?thesis
    unfolding batches_def by simp
qed

lemma batches_cover: "n \<le> batches n * BATCH_SIZE"
  unfolding batches_eq BATCH_SIZE_def by linarith

lemma length_batch: "length (batch userData i) \<le> BATCH_SIZE"
  by (simp add: batch_def slice_def)

lemma batch_take_drop: "batch userData i = take BATCH_SIZE (drop (i * BATCH_SIZE) userData)"
  by (simp add: batch_def slice_def)

lemma concat_batches: "concat (map (batch userData) [0..<k]) = take (k * BATCH_SIZE) userData"
proof (induction k)
  case 0
  show ?case by simp
next
  case (Suc k)
  have "concat (map (batch userData) [0..<Suc k]) =
        take (k * BATCH_SIZE) userData @ take BATCH_SIZE (drop (k * BATCH_SIZE) userData)"
    by (simp add: Suc batch_take_drop)
  also have "\<dots> = take (k * BATCH_SIZE + BATCH_SIZE) userData"
    by (simp add: take_add)
  finally show ?case by (simp add: add.commute)
qed

lemma send_loop_effect:
  "send_loop cfg nl us n i st =
     st\<lparr>submitted := submitted st @ map (\<lambda>j. map (make_message cfg nl) (batch us j)) [i..<n],
        pending := pending st @ map (\<lambda>j. map (make_message cfg nl) (batch us j)) [i..<n]\<rparr>"
proof (induction cfg nl us n i st rule: send_loop.induct)
  case (1 cfg nl us n i st)
  show ?case
  proof (cases "i < n")
    case False
    then show ?thesis by (subst send_loop.simps) simp
  next
    case True
    have u: "[i..<n] = i # [i + 1..<n]"
      using True by (simp add: upt_conv_Cons)
    show ?thesis
      using True 1 [OF True refl]
      by (subst send_loop.simps) (simp add: u Let_def)
  qed
qed

lemma send_effect:
  "send cfg us nl =
     \<lparr>failedEmails = [],
      submitted = map (\<lambda>j. map (make_message cfg nl) (batch us j)) [0..<batches (length us)],
      pending = map (\<lambda>j. map (make_message cfg nl) (batch us j)) [0..<batches (length us)]\<rparr>"
  by (simp add: send_def send_loop_effect)

text \<open>
  Whatever the recipients and the content, no callback has run when \<open>send\<close> returns: the
  array it returns is empty at that moment, and so is what the handler reads from it.
\<close>

lemma send_returns_empty: "failedEmails (send cfg us nl) = []"
  by (simp add: send_effect)

lemma postmark_sender_empty: "postmark_sender cfg us nl = []"
  by (simp add: postmark_sender_def send_returns_empty)

lemma send_example_user:
  "send example_config [example_user] example_newsletter =
     \<lparr>failedEmails = [],
      submitted = [[make_message example_config example_newsletter example_user]],
      pending = [[make_message example_config example_newsletter example_user]]\<rparr>"
  by (simp add: send_effect batches_eq batch_def slice_def BATCH_SIZE_def)

text \<open>
  C1 (the code departs from the claim): one recipient, and a provider that reports error
  406 for that recipient. \<open>send\<close> submits the batch and returns while the callback of the
  batch is still pending; the list it returns is empty, although the recipient's result
  is a failure. Only when the pending callback has run does the array hold the address.
\<close>

theorem C1_send_returns_before_outcomes:
  "failedEmails (send example_config [example_user] example_newsletter) = [] \<and>
   pending (send example_config [example_user] example_newsletter) =
     [[make_message example_config example_newsletter example_user]] \<and>
   map_option (map ErrorCode)
     (rejecting_provider [make_message example_config example_newsletter example_user]) =
     Some [406] \<and>
   failedEmails
     (settle rejecting_provider (send example_config [example_user] example_newsletter)) =
     [''bad@example.com'']"
  unfolding send_example_user
  by (simp add: settle_def rejecting_provider_def make_message_def example_user_def
      address_def)

text \<open>
  C2: for every recipient list, \<open>send\<close> submits exactly \<open>ceil(n / 500)\<close> batches, where \<open>n\<close>
  is the length of the list; the \<open>i\<close>-th batch holds the messages of the contiguous slice
  of at most 500 recipients that starts at index \<open>500 * i\<close>; and the slices,
  concatenated in the order of submission, are the input list.
\<close>

theorem C2_batches_partition_recipients:
  "submitted (send cfg userData newsletter) =
     map (\<lambda>i. map (make_message cfg newsletter) (batch userData i))
       [0..<nat \<lceil>real (length userData) / 500\<rceil>] \<and>
   length (submitted (send cfg userData newsletter)) = nat \<lceil>real (length userData) / 500\<rceil> \<and>
   (\<forall>i. batch userData i = take 500 (drop (i * 500) userData) \<and>
        length (batch userData i) \<le> 500) \<and>
   concat (map (batch userData) [0..<nat \<lceil>real (length userData) / 500\<rceil>]) = userData \<and>
   concat (map (map msg_To) (submitted (send cfg userData newsletter))) = map email userData"
proof -
  have b: "nat \<lceil>real (length userData) / 500\<rceil> = batches (length userData)"
    by (simp add: batches_def BATCH_SIZE_def)
  have c: "concat (map (batch userData) [0..<batches (length userData)]) = userData"
    using batches_cover [of "length userData"] by (simp add: concat_batches)
  have "concat (map (map msg_To) (submitted (send cfg userData newsletter))) =
        map email (concat (map (batch userData) [0..<batches (length userData)]))"
    by (simp add: send_effect map_concat comp_def make_message_def)
  then have d: "concat (map (map msg_To) (submitted (send cfg userData newsletter))) =
      map email userData"
    by (simp only: c)
  show ?thesis
    unfolding b using c d length_batch [of userData] batch_take_drop [of userData]
    by (simp add: send_effect BATCH_SIZE_def)
qed

theorem C2_witness:
  "length (submitted (send example_config (replicate 1200 example_user) example_newsletter)) = 3 \<and>
   map length (submitted (send example_config (replicate 1200 example_user) example_newsletter)) =
     [500, 500, 200] \<and>
   concat (map (batch (replicate 1200 example_user)) [0..<3]) = replicate 1200 example_user"
proof -
  let ?us = "replicate 1200 example_user"
  have n: "nat \<lceil>real (length ?us) / 500\<rceil> = 3"
    by simp
  note t = C2_batches_partition_recipients [of example_config ?us example_newsletter, unfolded n]
  have l: "map (\<lambda>i. length (batch ?us i)) [0..<3] = [500, 500, 200]"
    by (simp add: numeral_3_eq_3 batch_def slice_def BATCH_SIZE_def)
  have s: "submitted (send example_config ?us example_newsletter) =
      map (\<lambda>i. map (make_message example_config example_newsletter) (batch ?us i)) [0..<3]"
    by (rule conjunct1 [OF t])
  have m: "map length (submitted (send example_config ?us example_newsletter)) = [500, 500, 200]"
    unfolding s by (simp add: comp_def l)
  show ?thesis
    using t m by blast
qed

section \<open>Resolvers: properties\<close>

lemmas resolver_defs = getEmailsByPostId_def getNewsletterNameByPostId_def getConnection_def
  execute_def Let_def js_index_def

lemma getEmails_effects:
  "cxn_calls (snd (getEmailsByPostId cc db p w)) = cxn_calls w + 1 \<and>
   opened (snd (getEmailsByPostId cc db p w)) =
     (if cc (cxn_calls w) then opened w @ [cxn_calls w] else opened w) \<and>
   ended (snd (getEmailsByPostId cc db p w)) =
     (if isl (fst (getEmailsByPostId cc db p w)) then ended w else ended w @ [cxn_calls w])"
  by (simp add: resolver_defs split: sum.splits)

lemma getNewsletter_effects:
  "cxn_calls (snd (getNewsletterNameByPostId cc db p w)) = cxn_calls w + 1 \<and>
   opened (snd (getNewsletterNameByPostId cc db p w)) =
     (if cc (cxn_calls w) then opened w @ [cxn_calls w] else opened w) \<and>
   ended (snd (getNewsletterNameByPostId cc db p w)) = ended w"
  by (simp add: resolver_defs split: sum.splits)

lemma emails_failing:
  "getEmailsByPostId (fails_first 0) failing_store (Str ''42'') init_world =
     (Inl MysqlError,
      \<lparr>CONNECTION_ATTEMPTS = 1, cxn_calls = 1, opened = [0], ended = [], slept = []\<rparr>)"
  by (simp add: resolver_defs failing_store_def init_world_def fails_first_def)

lemma emails_example:
  "getEmailsByPostId (fails_first 0) example_store (Str ''42'') init_world =
     (Inr [example_user],
      \<lparr>CONNECTION_ATTEMPTS = 1, cxn_calls = 1, opened = [0], ended = [0], slept = []\<rparr>)"
  by (simp add: resolver_defs example_store_def init_world_def fails_first_def field_def
      example_user_def)

lemma newsletter_empty:
  "getNewsletterNameByPostId (fails_first 0) empty_store (Str ''42'') init_world =
     (Inl TypeError,
      \<lparr>CONNECTION_ATTEMPTS = 1, cxn_calls = 1, opened = [0], ended = [], slept = []\<rparr>)"
  by (simp add: resolver_defs empty_store_def init_world_def fails_first_def)

lemma emails_empty:
  "getEmailsByPostId (fails_first 0) empty_store (Str ''42'') init_world =
     (Inr [],
      \<lparr>CONNECTION_ATTEMPTS = 1, cxn_calls = 1, opened = [0], ended = [0], slept = []\<rparr>)"
  by (simp add: resolver_defs empty_store_def init_world_def fails_first_def)

lemma map_of_zip_absent: "k \<notin> set ks \<Longrightarrow> map_of (zip ks vs) k = None"
  by (auto simp: map_of_eq_None_iff dest: set_zip_leftD)

lemma getNewsletter_result:
  assumes "getNewsletterNameByPostId cc db postId w = (Inr v, w')"
  shows "\<exists>t ts n. db NEWSLETTER_QUERY postId = Inr (t # ts) \<and>
           get_prop (Obj (zip (columns NEWSLETTER_QUERY) t)) ''name'' = Inr n \<and>
           v = Obj [(''name'', n), (''newsletter_uuid'', Undefined)]"
proof (cases "db NEWSLETTER_QUERY postId")
  case (Inl e)
  with assms show ?thesis
    by (simp add: resolver_defs split: if_splits)
next
  case (Inr tuples)
  show ?thesis
  proof (cases tuples)
    case Nil
    with Inr assms show ?thesis
      by (simp add: resolver_defs split: if_splits)
  next
    case (Cons t ts)
    have u: "map_of (zip [''name'', ''newsletter_id''] t) ''newsletter_uuid'' = None"
      by (simp add: map_of_zip_absent)
    from Cons Inr assms show ?thesis
      by (simp add: resolver_defs u split: if_splits sum.splits)
  qed
qed

lemma newsletter_example:
  "getNewsletterNameByPostId (fails_first 0) example_store (Str ''42'') w =
     (Inr (Obj [(''name'', Str ''Weekly''), (''newsletter_uuid'', Undefined)]),
      w\<lparr>cxn_calls := cxn_calls w + 1, opened := opened w @ [cxn_calls w]\<rparr>)"
  by (simp add: resolver_defs example_store_def fails_first_def)

lemma getNewsletter_no_rows:
  assumes "db NEWSLETTER_QUERY p = Inr []"
  shows "fst (getNewsletterNameByPostId cc db p w) =
           (if cc (cxn_calls w) then Inl TypeError else Inl MysqlError)"
  using assms by (simp add: resolver_defs)

text \<open>
  C6 (the code departs from the claim): post 42 has a publication and one subscriber.
  The publication resolver returns the publication and never closes the connection it
  opened; it does not close it when the lookup fails either. Its sibling, the subscriber
  resolver, closes its connection when it returns the subscribers, but leaves it open
  when the store rejects the query.
\<close>

theorem C6_connections_left_open:
  "fst (getNewsletterNameByPostId (fails_first 0) example_store (Str ''42'') init_world) =
     Inr (Obj [(''name'', Str ''Weekly''), (''newsletter_uuid'', Undefined)]) \<and>
   opened (snd (getNewsletterNameByPostId (fails_first 0) example_store (Str ''42'') init_world)) =
     [0] \<and>
   ended (snd (getNewsletterNameByPostId (fails_first 0) example_store (Str ''42'') init_world)) =
     [] \<and>
   fst (getNewsletterNameByPostId (fails_first 0) empty_store (Str ''42'') init_world) =
     Inl TypeError \<and>
   opened (snd (getNewsletterNameByPostId (fails_first 0) empty_store (Str ''42'') init_world)) =
     [0] \<and>
   ended (snd (getNewsletterNameByPostId (fails_first 0) empty_store (Str ''42'') init_world)) =
     [] \<and>
   fst (getEmailsByPostId (fails_first 0) failing_store (Str ''42'') init_world) =
     Inl MysqlError \<and>
   opened (snd (getEmailsByPostId (fails_first 0) failing_store (Str ''42'') init_world)) = [0] \<and>
   ended (snd (getEmailsByPostId (fails_first 0) failing_store (Str ''42'') init_world)) = [] \<and>
   fst (getEmailsByPostId (fails_first 0) example_store (Str ''42'') init_world) =
     Inr [example_user] \<and>
   opened (snd (getEmailsByPostId (fails_first 0) example_store (Str ''42'') init_world)) = [0] \<and>
   ended (snd (getEmailsByPostId (fails_first 0) example_store (Str ''42'') init_world)) = [0]"
  unfolding emails_example emails_failing newsletter_empty newsletter_example
  by (simp add: init_world_def)

text \<open>
  C10: whenever the publication lookup succeeds, the store selected at least one tuple,
  and the value returned is the object whose \<open>name\<close> is the first column of the first
  tuple and whose \<open>newsletter_uuid\<close> is \<open>undefined\<close>: the rows carry the uuid under the
  column name \<open>newsletter_id\<close>, and \<open>newsletter_uuid\<close> is not a column of the result.
\<close>

theorem C10_newsletter_uuid_undefined:
  assumes "getNewsletterNameByPostId cc db postId w = (Inr v, w')"
  shows "field v ''newsletter_uuid'' = Undefined \<and>
         get_prop v ''newsletter_uuid'' = Inr Undefined \<and>
         ''newsletter_uuid'' \<notin> set (columns NEWSLETTER_QUERY) \<and>
         (\<exists>t ts n. db NEWSLETTER_QUERY postId = Inr (t # ts) \<and>
            v = Obj [(''name'', n), (''newsletter_uuid'', Undefined)])"
  using getNewsletter_result [OF assms] by (auto simp: field_def)

theorem C10_witness:
  "getNewsletterNameByPostId (fails_first 0) example_store (Str ''42'') init_world =
     (Inr (Obj [(''name'', Str ''Weekly''), (''newsletter_uuid'', Undefined)]),
      init_world\<lparr>cxn_calls := cxn_calls init_world + 1,
                 opened := opened init_world @ [cxn_calls init_world]\<rparr>) \<and>
   example_store NEWSLETTER_QUERY (Str ''42'') = Inr [[Str ''Weekly'', Str ''n-1'']] \<and>
   field (Obj [(''name'', Str ''Weekly''), (''newsletter_uuid'', Undefined)]) ''newsletter_uuid''
     = Undefined"
  using C10_newsletter_uuid_undefined [OF newsletter_example [of init_world]]
    newsletter_example [of init_world]
  by (simp add: example_store_def)

section \<open>Webhook handler: properties\<close>

lemma path_example_id: "path example_event [''post'', ''current'', ''id''] = Inr (Str ''42'')"
  by (simp add: example_event_def)

lemma build_example:
  "build_newsletterData example_event
     (Obj [(''name'', Str ''Weekly''), (''newsletter_uuid'', Undefined)]) = Inr example_newsletter"
  by (simp add: build_newsletterData_def bind_err_def example_event_def example_newsletter_def)

lemma try_example:
  "hooks_try sender (fails_first 0) example_store example_event (Str ''42'') init_world =
     (if 0 < length (sender [example_user] example_newsletter)
      then Inl (Error (''Failed emails list: '' @ join_comma (sender [example_user] example_newsletter)))
      else Inr (),
      Some ([example_user], example_newsletter),
      \<lparr>CONNECTION_ATTEMPTS = 1, cxn_calls = 2, opened = [0, 1], ended = [0], slept = []\<rparr>)"
  unfolding hooks_try_def emails_example
  by (simp add: newsletter_example build_example Let_def)

lemma handler_example_ok:
  "hooks_handler sender_ok (fails_first 0) example_store example_event init_world =
     \<lparr>status = Some 200, dispatch = Some ([example_user], example_newsletter),
      world_after =
        \<lparr>CONNECTION_ATTEMPTS = 1, cxn_calls = 2, opened = [0, 1], ended = [0], slept = []\<rparr>\<rparr>"
  by (simp add: hooks_handler_def path_example_id try_example sender_ok_def del: path.simps)

lemma handler_example_failed:
  "hooks_handler sender_all_failed (fails_first 0) example_store example_event init_world =
     \<lparr>status = Some 500, dispatch = Some ([example_user], example_newsletter),
      world_after =
        \<lparr>CONNECTION_ATTEMPTS = 1, cxn_calls = 2, opened = [0, 1], ended = [0], slept = []\<rparr>\<rparr>"
  by (simp add: hooks_handler_def path_example_id try_example sender_all_failed_def
      example_user_def address_def del: path.simps)

text \<open>
  With the Postmark dispatcher the list read by the handler is empty, so a request that
  reaches the dispatcher is answered with 200 whatever the provider reports later.
\<close>

lemma handler_example_postmark:
  "hooks_handler (postmark_sender cfg) (fails_first 0) example_store example_event init_world =
     \<lparr>status = Some 200, dispatch = Some ([example_user], example_newsletter),
      world_after =
        \<lparr>CONNECTION_ATTEMPTS = 1, cxn_calls = 2, opened = [0, 1], ended = [0], slept = []\<rparr>\<rparr>"
  by (simp add: hooks_handler_def path_example_id try_example postmark_sender_empty
      del: path.simps)

lemma handler_failing_store:
  "hooks_handler sender (fails_first 0) failing_store example_event init_world =
     \<lparr>status = Some 500, dispatch = None,
      world_after =
        \<lparr>CONNECTION_ATTEMPTS = 1, cxn_calls = 1, opened = [0], ended = [], slept = []\<rparr>\<rparr>"
  by (simp add: hooks_handler_def hooks_try_def path_example_id emails_failing
      del: path.simps)

lemma handler_empty_store:
  "hooks_handler sender (fails_first 0) empty_store example_event init_world =
     \<lparr>status = Some 500, dispatch = None,
      world_after =
        \<lparr>CONNECTION_ATTEMPTS = 1, cxn_calls = 2, opened = [0, 1], ended = [0], slept = []\<rparr>\<rparr>"
  by (simp add: hooks_handler_def hooks_try_def path_example_id emails_empty
      getNewsletterNameByPostId_def getConnection_def execute_def Let_def js_index_def
      empty_store_def fails_first_def del: path.simps)

lemma template_fields:
  "map_of (template_model cfg nd u) ''title'' = Some (title nd) \<and>
   map_of (template_model cfg nd u) ''excerpt'' = Some (excerpt nd) \<and>
   map_of (template_model cfg nd u) ''html'' = Some (html nd) \<and>
   map_of (template_model cfg nd u) ''postUrl'' = Some (url nd) \<and>
   map_of (template_model cfg nd u) ''feature_image'' = Some (feature_image nd) \<and>
   map_of (template_model cfg nd u) ''authorName'' = Some (author_name (author nd)) \<and>
   map_of (template_model cfg nd u) ''authorImage'' = Some (author_image (author nd)) \<and>
   map_of (template_model cfg nd u) ''emailFrom'' =
     Some (Str (case MAIL_FROM cfg of None \<Rightarrow> [] | Some s \<Rightarrow> s)) \<and>
   map_of (template_model cfg nd u) ''website_url'' =
     Some (Str (case GHOST_URL cfg of None \<Rightarrow> ''https://example.com''
                | Some s \<Rightarrow> if s = [] then ''https://example.com'' else s))"
  by (simp add: template_model_def js_or_def env_val_def split: option.splits)


lemma handler_cases:
  assumes "path postData [''post'', ''current'', ''id''] = Inr postId"
  shows "hooks_handler sender cc db postData w =
     (case hooks_try sender cc db postData postId w of
        (r, d, w') \<Rightarrow> \<lparr>status = Some (if isl r then 500 else 200), dispatch = d, world_after = w'\<rparr>)"
  using assms by (simp add: hooks_handler_def split: prod.splits sum.splits del: path.simps)

lemma handler_emails_error:
  assumes "path postData [''post'', ''current'', ''id''] = Inr postId"
    and "isl (fst (getEmailsByPostId cc db postId w))"
  shows "status (hooks_handler sender cc db postData w) = Some 500 \<and>
         dispatch (hooks_handler sender cc db postData w) = None"
proof -
  obtain r1 w1 where e1: "getEmailsByPostId cc db postId w = (r1, w1)"
    by (cases "getEmailsByPostId cc db postId w")
  with assms(2) obtain e where "r1 = Inl e"
    by (cases r1) simp_all
  with e1 show ?thesis
    by (simp add: handler_cases [OF assms(1)] hooks_try_def)
qed

lemma handler_newsletter_error:
  assumes "path postData [''post'', ''current'', ''id''] = Inr postId"
    and "isl (fst (getNewsletterNameByPostId cc db postId (snd (getEmailsByPostId cc db postId w))))"
  shows "status (hooks_handler sender cc db postData w) = Some 500 \<and>
         dispatch (hooks_handler sender cc db postData w) = None"
proof -
  obtain r1 w1 where e1: "getEmailsByPostId cc db postId w = (r1, w1)"
    by (cases "getEmailsByPostId cc db postId w")
  obtain r2 w2 where e2: "getNewsletterNameByPostId cc db postId w1 = (r2, w2)"
    by (cases "getNewsletterNameByPostId cc db postId w1")
  from assms(2) e1 e2 obtain e where r2: "r2 = Inl e"
    by (cases r2) simp_all
  show ?thesis
  proof (cases r1)
    case (Inl e')
    with e1 show ?thesis
      by (simp add: handler_cases [OF assms(1)] hooks_try_def)
  next
    case (Inr usersToEmail)
    with e1 e2 r2 show ?thesis
      by (simp add: handler_cases [OF assms(1)] hooks_try_def)
  qed
qed

lemma handler_dispatched:
  assumes d: "dispatch (hooks_handler sender cc db postData w) = Some (users, nd)"
  shows "status (hooks_handler sender cc db postData w) =
           Some (if sender users nd = [] then 200 else 500)"
proof (cases "path postData [''post'', ''current'', ''id'']")
  case (Inl e)
  with d show ?thesis
    by (simp add: hooks_handler_def del: path.simps)
next
  case (Inr postId)
  note hc = handler_cases [OF Inr, of sender cc db w]
  obtain r1 w1 where e1: "getEmailsByPostId cc db postId w = (r1, w1)"
    by (cases "getEmailsByPostId cc db postId w")
  show ?thesis
  proof (cases r1)
    case (Inl e)
    with d e1 show ?thesis
      by (simp add: hc hooks_try_def)
  next
    case us: (Inr usersToEmail)
    obtain r2 w2 where e2: "getNewsletterNameByPostId cc db postId w1 = (r2, w2)"
      by (cases "getNewsletterNameByPostId cc db postId w1")
    show ?thesis
    proof (cases r2)
      case (Inl e)
      with d e1 us e2 show ?thesis
        by (simp add: hc hooks_try_def)
    next
      case nn: (Inr newsletterName)
      show ?thesis
      proof (cases "build_newsletterData postData newsletterName")
        case (Inl e)
        with d e1 us e2 nn show ?thesis
          by (simp add: hc hooks_try_def)
      next
        case (Inr newsletterData)
        with d e1 us e2 nn show ?thesis
          by (simp add: hc hooks_try_def Let_def split: if_splits)
      qed
    qed
  qed
qed

lemma bind_err_Inr: "bind_err m f = Inr y \<longleftrightarrow> (\<exists>x. m = Inr x \<and> f x = Inr y)"
  by (cases m) (simp_all add: bind_err_def)

lemma content_fields:
  assumes "build_newsletterData postData pub = Inr nd"
  shows "path postData [''post'', ''current'', ''title''] = Inr (title nd) \<and>
         path postData [''post'', ''current'', ''excerpt''] = Inr (excerpt nd) \<and>
         path postData [''post'', ''current'', ''html''] = Inr (html nd) \<and>
         path postData [''post'', ''current'', ''url''] = Inr (url nd) \<and>
         path postData [''post'', ''current'', ''feature_image''] = Inr (feature_image nd) \<and>
         path postData [''post'', ''current'', ''primary_author'', ''name''] =
           Inr (author_name (author nd)) \<and>
         path postData [''post'', ''current'', ''primary_author'', ''profile_image''] =
           Inr (author_image (author nd)) \<and>
         path postData [''post'', ''current'', ''slug''] = Inr (postSlug nd)"
  using assms
  by (clarsimp simp add: build_newsletterData_def bind_err_Inr simp del: path.simps)

text \<open>
  C5, as the claim states it, fails: for a post whose publication lookup selects no
  tuple, the error of \<open>getNewsletterNameByPostId\<close> is the \<open>TypeError\<close> that reading
  \<open>rows[0].name\<close> raises on the empty result.
\<close>

theorem C5_unguarded_access_counterexample:
  "empty_store NEWSLETTER_QUERY (Str ''42'') = Inr [] \<and>
   js_index [] 0 = Undefined \<and>
   get_prop Undefined ''name'' = Inl TypeError \<and>
   fst (getNewsletterNameByPostId (fails_first 0) empty_store (Str ''42'') init_world) =
     Inl TypeError"
  by (simp add: newsletter_empty empty_store_def js_index_def)

text \<open>
  C5, amended: for every content id whose publication lookup returns zero rows,
  \<open>getNewsletterNameByPostId\<close> fails; when its connection was established, the error is
  the \<open>TypeError\<close> of reading \<open>rows[0].name\<close>. The handler then calls no dispatcher and
  answers with status 500.
\<close>

theorem C5_no_rows_no_dispatch:
  assumes "db NEWSLETTER_QUERY postId = Inr []"
  shows "isl (fst (getNewsletterNameByPostId cc db postId w)) \<and>
         (cc (cxn_calls w) \<longrightarrow> fst (getNewsletterNameByPostId cc db postId w) = Inl TypeError) \<and>
         (path postData [''post'', ''current'', ''id''] = Inr postId \<longrightarrow>
            dispatch (hooks_handler sender cc db postData w) = None \<and>
            status (hooks_handler sender cc db postData w) = Some 500)"
proof -
  note r = getNewsletter_no_rows [of db postId, OF assms]
  have f: "isl (fst (getNewsletterNameByPostId cc db postId w1))" for w1
    by (simp add: r)
  show ?thesis
    using f [of w] handler_newsletter_error [of postData postId cc db w sender, OF _ f]
    by (simp add: r del: path.simps)
qed

theorem C5_witness:
  "empty_store NEWSLETTER_QUERY (Str ''42'') = Inr [] \<and>
   fails_first 0 (cxn_calls init_world) \<and>
   path example_event [''post'', ''current'', ''id''] = Inr (Str ''42'') \<and>
   fst (getNewsletterNameByPostId (fails_first 0) empty_store (Str ''42'') init_world) =
     Inl TypeError \<and>
   dispatch (hooks_handler sender_all_failed (fails_first 0) empty_store example_event init_world) =
     None \<and>
   status (hooks_handler sender_all_failed (fails_first 0) empty_store example_event init_world) =
     Some 500"
proof -
  have h: "empty_store NEWSLETTER_QUERY (Str ''42'') = Inr []"
    by (simp add: empty_store_def)
  show ?thesis
    using h path_example_id
      C5_no_rows_no_dispatch [where db = empty_store and postId = "Str ''42''"
        and cc = "fails_first 0" and w = init_world and postData = example_event
        and sender = sender_all_failed, OF h]
    by (simp add: fails_first_def del: path.simps)
qed

text \<open>
  C7, as the claim states it, fails: for a webhook body without an excerpt and with
  \<open>feature_image\<close> \<open>null\<close>, the content the handler passes to the dispatcher has \<open>excerpt\<close>
  \<open>undefined\<close> and \<open>feature_image\<close> \<open>null\<close>, and so has the template model of the
  recipient; neither is replaced by the empty string.
\<close>

theorem C7_missing_field_counterexample:
  "dispatch (hooks_handler sender_ok (fails_first 0) example_store example_event init_world) =
     Some ([example_user], example_newsletter) \<and>
   excerpt example_newsletter = Undefined \<and>
   feature_image example_newsletter = Null \<and>
   map_of (template_model example_config example_newsletter example_user) ''excerpt'' =
     Some Undefined \<and>
   map_of (template_model example_config example_newsletter example_user) ''feature_image'' =
     Some Null"
  by (simp add: handler_example_ok template_fields) (simp add: example_newsletter_def)

text \<open>
  C7, amended: whenever the handler assembles the content, each of the fields \<open>title\<close>,
  \<open>excerpt\<close>, \<open>html\<close>, \<open>url\<close>, \<open>feature_image\<close>, \<open>author.name\<close>, \<open>author.image\<close> and
  \<open>postSlug\<close> is the value of the corresponding field of the webhook body, copied
  unchanged and without a default (so it is a string exactly when the body's field is
  one, and \<open>undefined\<close> when the body lacks the field). Of these, \<open>title\<close>, \<open>excerpt\<close>,
  \<open>html\<close>, \<open>url\<close>, \<open>feature_image\<close>, \<open>author.name\<close> and \<open>author.image\<close> are substituted
  unchanged into the template model of every recipient (as \<open>title\<close>, \<open>excerpt\<close>, \<open>html\<close>,
  \<open>postUrl\<close>, \<open>feature_image\<close>, \<open>authorName\<close> and \<open>authorImage\<close>); \<open>postSlug\<close> is not
  substituted: the template model has no such field and does not depend on it. In the
  template model, \<open>emailFrom\<close> is the empty string when \<open>MAIL_FROM\<close> is not set, and
  \<open>website_url\<close> is "https://example.com" when \<open>GHOST_URL\<close> is not set or empty.
\<close>

theorem C7_content_fields_copied:
  assumes "build_newsletterData postData pub = Inr nd"
  shows "path postData [''post'', ''current'', ''title''] = Inr (title nd) \<and>
         path postData [''post'', ''current'', ''excerpt''] = Inr (excerpt nd) \<and>
         path postData [''post'', ''current'', ''html''] = Inr (html nd) \<and>
         path postData [''post'', ''current'', ''url''] = Inr (url nd) \<and>
         path postData [''post'', ''current'', ''feature_image''] = Inr (feature_image nd) \<and>
         path postData [''post'', ''current'', ''primary_author'', ''name''] =
           Inr (author_name (author nd)) \<and>
         path postData [''post'', ''current'', ''primary_author'', ''profile_image''] =
           Inr (author_image (author nd)) \<and>
         path postData [''post'', ''current'', ''slug''] = Inr (postSlug nd) \<and>
         map_of (template_model cfg nd u) ''title'' = Some (title nd) \<and>
         map_of (template_model cfg nd u) ''excerpt'' = Some (excerpt nd) \<and>
         map_of (template_model cfg nd u) ''html'' = Some (html nd) \<and>
         map_of (template_model cfg nd u) ''postUrl'' = Some (url nd) \<and>
         map_of (template_model cfg nd u) ''feature_image'' = Some (feature_image nd) \<and>
         map_of (template_model cfg nd u) ''authorName'' = Some (author_name (author nd)) \<and>
         map_of (template_model cfg nd u) ''authorImage'' = Some (author_image (author nd)) \<and>
         map_of (template_model cfg nd u) ''postSlug'' = None \<and>
         (\<forall>x. template_model cfg (nd\<lparr>postSlug := x\<rparr>) u = template_model cfg nd u) \<and>
         map_of (template_model cfg nd u) ''emailFrom'' =
           Some (Str (case MAIL_FROM cfg of None \<Rightarrow> [] | Some s \<Rightarrow> s)) \<and>
         map_of (template_model cfg nd u) ''website_url'' =
           Some (Str (case GHOST_URL cfg of None \<Rightarrow> ''https://example.com''
                      | Some s \<Rightarrow> if s = [] then ''https://example.com'' else s))"
proof -
  have s: "map_of (template_model cfg nd u) ''postSlug'' = None"
    by (simp add: template_model_def)
  have i: "\<forall>x. template_model cfg (nd\<lparr>postSlug := x\<rparr>) u = template_model cfg nd u"
    by (simp add: template_model_def)
  show ?thesis
    using content_fields [OF assms] template_fields [of cfg nd u] s i by blast
qed

theorem C7_witness:
  "build_newsletterData example_event
     (Obj [(''name'', Str ''Weekly''), (''newsletter_uuid'', Undefined)]) = Inr example_newsletter \<and>
   path example_event [''post'', ''current'', ''title''] = Inr (Str ''Hello'') \<and>
   path example_event [''post'', ''current'', ''excerpt''] = Inr Undefined \<and>
   path example_event [''post'', ''current'', ''slug''] = Inr (Str ''hello'') \<and>
   map_of (template_model example_config example_newsletter example_user) ''title'' =
     Some (Str ''Hello'') \<and>
   map_of (template_model example_config example_newsletter example_user) ''postSlug'' = None \<and>
   map_of (template_model example_config example_newsletter example_user) ''emailFrom'' =
     Some (Str ''news@example.com'')"
  using build_example C7_content_fields_copied [OF build_example, of example_config example_user]
  by (simp add: example_newsletter_def example_config_def del: path.simps)

text \<open>
  C8: whenever the handler reaches the call of the dispatcher, with recipients \<open>users\<close>
  and content \<open>nd\<close>, it answers 200 exactly when the list it gets from the dispatcher is
  empty, and 500 when that list is not empty. When the subscriber resolver or the
  publication resolver fails, it answers 500 and calls no dispatcher.
\<close>

theorem C8_response_contract:
  "(dispatch (hooks_handler sender cc db postData w) = Some (users, nd) \<longrightarrow>
      (status (hooks_handler sender cc db postData w) = Some 200 \<longleftrightarrow> sender users nd = []) \<and>
      (sender users nd \<noteq> [] \<longrightarrow> status (hooks_handler sender cc db postData w) = Some 500)) \<and>
   (path postData [''post'', ''current'', ''id''] = Inr postId \<longrightarrow>
      (isl (fst (getEmailsByPostId cc db postId w)) \<longrightarrow>
         status (hooks_handler sender cc db postData w) = Some 500 \<and>
         dispatch (hooks_handler sender cc db postData w) = None) \<and>
      (isl (fst (getNewsletterNameByPostId cc db postId (snd (getEmailsByPostId cc db postId w)))) \<longrightarrow>
         status (hooks_handler sender cc db postData w) = Some 500 \<and>
         dispatch (hooks_handler sender cc db postData w) = None))"
proof -
  have a: "dispatch (hooks_handler sender cc db postData w) = Some (users, nd) \<longrightarrow>
      (status (hooks_handler sender cc db postData w) = Some 200 \<longleftrightarrow> sender users nd = []) \<and>
      (sender users nd \<noteq> [] \<longrightarrow> status (hooks_handler sender cc db postData w) = Some 500)"
    using handler_dispatched [of sender cc db postData w users nd] by simp
  show ?thesis
    using a handler_emails_error [of postData postId cc db w sender]
      handler_newsletter_error [of postData postId cc db w sender]
    by blast
qed

theorem C8_witness:
  "dispatch (hooks_handler sender_ok (fails_first 0) example_store example_event init_world) =
     Some ([example_user], example_newsletter) \<and>
   sender_ok [example_user] example_newsletter = [] \<and>
   status (hooks_handler sender_ok (fails_first 0) example_store example_event init_world) =
     Some 200 \<and>
   dispatch (hooks_handler sender_all_failed (fails_first 0) example_store example_event init_world) =
     Some ([example_user], example_newsletter) \<and>
   sender_all_failed [example_user] example_newsletter = [''bad@example.com''] \<and>
   status (hooks_handler sender_all_failed (fails_first 0) example_store example_event init_world) =
     Some 500 \<and>
   path example_event [''post'', ''current'', ''id''] = Inr (Str ''42'') \<and>
   isl (fst (getEmailsByPostId (fails_first 0) failing_store (Str ''42'') init_world)) \<and>
   status (hooks_handler sender_ok (fails_first 0) failing_store example_event init_world) =
     Some 500 \<and>
   isl (fst (getNewsletterNameByPostId (fails_first 0) empty_store (Str ''42'')
     (snd (getEmailsByPostId (fails_first 0) empty_store (Str ''42'') init_world)))) \<and>
   status (hooks_handler sender_ok (fails_first 0) empty_store example_event init_world) =
     Some 500"
  using
    C8_response_contract [of sender_ok "fails_first 0" example_store example_event init_world
      "[example_user]" example_newsletter "Str ''42''"]
    C8_response_contract [of sender_all_failed "fails_first 0" example_store example_event
      init_world "[example_user]" example_newsletter "Str ''42''"]
    C8_response_contract [of sender_ok "fails_first 0" failing_store example_event init_world
      "[example_user]" example_newsletter "Str ''42''"]
    C8_response_contract [of sender_ok "fails_first 0" empty_store example_event init_world
      "[example_user]" example_newsletter "Str ''42''"]
  unfolding handler_example_ok handler_example_failed handler_failing_store handler_empty_store
    emails_failing emails_empty path_example_id
  by (simp add: sender_ok_def sender_all_failed_def example_user_def address_def
      getNewsletter_no_rows empty_store_def)

end
